theory Spec2Isabelle
  imports Main "HOL-Library.AList" "HOL-Library.Sublist"
begin

section \<open>JSON documents and the Python operations applied to them\<close>

text \<open>
  The scripts handle every document of the service as the value that \<^verbatim>\<open>response.json()\<close>
  or \<^verbatim>\<open>json.load\<close> returns. A JSON object is kept as an association list: \<open>map_of\<close>
  is the lookup, \<open>AList.update\<close> the assignment \<^verbatim>\<open>d[k] = v\<close> (in place when the key is
  present). Python's \<^verbatim>\<open>None\<close> is \<open>JNull\<close>.
\<close>

datatype json =
    JNull
  | JBool bool
  | JNum int
  | JStr string
  | JArr "json list"
  | JObj "(string \<times> json) list"

type_synonym path = "string list"

datatype error =
    RequestException
  | KeyError string
  | TypeError
  | AttributeError
  | JSONDecodeError
  | FileNotFoundError path
  | NotADirectoryError path
  | BadZipFile
  | UnableToRetrieveToken
  | ExportStatus int string
  | ErrorExporting error
  | FolderDoesNotExist path
  | FailedToCompress error
  | NoZipFilesFound string
  | VersionNotFound string
  | FailedToDownloadAndUnzip error
  | ErrorReadingJSON path error
  | FailedToCreateFile path error
  | UnexpectedKeyword string
  | FailedToCompressAndUpload error

text \<open>\<^verbatim>\<open>if not x\<close>: the truth value Python gives a JSON value.\<close>

fun py_truthy :: "json \<Rightarrow> bool" where
  "py_truthy JNull = False"
| "py_truthy (JBool b) = b"
| "py_truthy (JNum n) = (n \<noteq> 0)"
| "py_truthy (JStr s) = (s \<noteq> [])"
| "py_truthy (JArr xs) = (xs \<noteq> [])"
| "py_truthy (JObj kvs) = (kvs \<noteq> [])"

text \<open>\<^verbatim>\<open>for x in v\<close>: a list gives its elements, a dict its keys, a string its characters;
  anything else is not iterable.\<close>

fun py_iter :: "json \<Rightarrow> error + json list" where
  "py_iter (JArr xs) = Inr xs"
| "py_iter (JObj kvs) = Inr (map (\<lambda>kv. JStr (fst kv)) kvs)"
| "py_iter (JStr s) = Inr (map (\<lambda>c. JStr [c]) s)"
| "py_iter _ = Inl TypeError"

text \<open>\<^verbatim>\<open>v[k]\<close> with a string key: KeyError on a dict without the key, TypeError on
  every value that is not a dict.\<close>

fun py_getitem :: "json \<Rightarrow> string \<Rightarrow> error + json" where
  "py_getitem (JObj kvs) k = (case map_of kvs k of None \<Rightarrow> Inl (KeyError k) | Some v \<Rightarrow> Inr v)"
| "py_getitem _ k = Inl TypeError"

text \<open>\<^verbatim>\<open>v.get(k, d)\<close>: only a dict has the method.\<close>

fun py_get :: "json \<Rightarrow> string \<Rightarrow> json \<Rightarrow> error + json" where
  "py_get (JObj kvs) k d = (case map_of kvs k of None \<Rightarrow> Inr d | Some v \<Rightarrow> Inr v)"
| "py_get _ k d = Inl AttributeError"

text \<open>\<^verbatim>\<open>os.path.join(dir, name)\<close>: a path is the list of its components below the script's
  directory; a name that is not a string is a TypeError. Names are taken to be single
  path components.\<close>

fun path_join :: "path \<Rightarrow> json \<Rightarrow> error + path" where
  "path_join dir (JStr s) = Inr (dir @ [s])"
| "path_join dir _ = Inl TypeError"

text \<open>\<^verbatim>\<open>os.path.splitext(file)[0]\<close>: the name without its last extension; a name whose only
  dots are leading ones has no extension.\<close>

definition splitext_root :: "string \<Rightarrow> string" where
  "splitext_root p =
     (case dropWhile (\<lambda>c. c \<noteq> CHR ''.'') (rev p) of
        [] \<Rightarrow> p
      | d # r \<Rightarrow> if list_ex (\<lambda>c. c \<noteq> CHR ''.'') r then rev r else p)"

definition startswith :: "string \<Rightarrow> string \<Rightarrow> bool" where
  "startswith s p = (take (length p) s = p)"

definition endswith :: "string \<Rightarrow> string \<Rightarrow> bool" where
  "endswith s p = (length p \<le> length s \<and> drop (length s - length p) s = p)"

text \<open>\<^verbatim>\<open>name.split("/")[-1]\<close> and \<^verbatim>\<open>name.split("_")[0]\<close>.\<close>

definition split_last :: "char \<Rightarrow> string \<Rightarrow> string" where
  "split_last sep s = rev (takeWhile (\<lambda>c. c \<noteq> sep) (rev s))"

definition split_first :: "char \<Rightarrow> string \<Rightarrow> string" where
  "split_first sep s = takeWhile (\<lambda>c. c \<noteq> sep) s"

section \<open>The world outside the scripts\<close>

text \<open>
  A file holds a JSON document, a ZIP archive (its file entries, each a relative path and
  a content) or bytes that are neither. \<^verbatim>\<open>compress_folder\<close> writes file entries only, so an
  archive here has no directory entries.
\<close>

datatype content =
    Doc json
  | Zip "(path \<times> content) list"
  | Junk string

type_synonym archive = "(path \<times> content) list"

datatype level = INFO | WARNING | ERROR | CRITICAL

datatype api_call =
    ExportApps
  | ListNamespaces
  | ListDrafts string
  | GetDraft string string
  | ListConnections string
  | ListApps string
  | GetApp string string
  | CreateNamespace string json
  | UpsertApp string string json
  | UpsertDraft string string json
  | UpsertConnection string string json

datatype event =
    RunGcloud
  | Api api_call
  | ExtractAll path archive
  | SaveToFile path json
  | Rewrite path json
  | Rename path path
  | Compress path archive
  | Upload string
  | Download string
  | Log level string

record world =
  fs_files :: "(path \<times> content) list"
  fs_dirs :: "path list"
  bucket :: "(string \<times> content) list"
  trace :: "event list"

text \<open>
  What the scripts read from outside: the clock, the credential tool, the answers of the
  service and of the bucket, and the two library functions that are not re-implemented
  here (\<^verbatim>\<open>json.loads\<close> on a string, \<^verbatim>\<open>str()\<close> of a number or a container). A read that
  raises a \<^verbatim>\<open>RequestException\<close> (transport error, status raised by \<^verbatim>\<open>raise_for_status\<close>,
  body that is not JSON) is \<open>None\<close>.
\<close>

record response =
  status_code :: int
  reason :: string
  body :: content

record env =
  today :: string
  gcloud_token :: "string option"
  export_apps :: "response option"
  get_namespaces :: "json option"
  get_drafts :: "string \<Rightarrow> json option"
  get_draft :: "string \<Rightarrow> string \<Rightarrow> json option"
  get_connections :: "string \<Rightarrow> json option"
  get_apps :: "string \<Rightarrow> json option"
  get_app :: "string \<Rightarrow> string \<Rightarrow> json option"
  put_ok :: "api_call \<Rightarrow> bool"
  upload_ok :: "string \<Rightarrow> bool"
  json_loads :: "string \<Rightarrow> json option"
  py_repr :: "json \<Rightarrow> string"

text \<open>An f-string field \<^verbatim>\<open>{v}\<close>.\<close>

definition py_str :: "env \<Rightarrow> json \<Rightarrow> string" where
  "py_str en v =
     (case v of
        JStr s \<Rightarrow> s
      | JNull \<Rightarrow> ''None''
      | JBool b \<Rightarrow> (if b then ''True'' else ''False'')
      | _ \<Rightarrow> py_repr en v)"

definition emit :: "event \<Rightarrow> world \<Rightarrow> world" where
  "emit e w = w\<lparr>trace := trace w @ [e]\<rparr>"

definition log :: "level \<Rightarrow> string \<Rightarrow> world \<Rightarrow> world" where
  "log l m w = emit (Log l m) w"

subsection \<open>The local file system\<close>

definition is_file :: "world \<Rightarrow> path \<Rightarrow> bool" where
  "is_file w p = (map_of (fs_files w) p \<noteq> None)"

definition is_dir :: "world \<Rightarrow> path \<Rightarrow> bool" where
  "is_dir w p = (p = [] \<or> p \<in> set (fs_dirs w))"

definition path_exists :: "world \<Rightarrow> path \<Rightarrow> bool" where
  "path_exists w p = (is_dir w p \<or> is_file w p)"

text \<open>\<^verbatim>\<open>os.makedirs\<close>: the directory and every missing parent.\<close>

definition makedirs :: "path \<Rightarrow> world \<Rightarrow> world" where
  "makedirs p w = w\<lparr>fs_dirs := List.union (fs_dirs w) (prefixes p)\<rparr>"

text \<open>\<^verbatim>\<open>open(p, 'w')\<close> and a write: the parent must be a directory.\<close>

definition write_file :: "path \<Rightarrow> content \<Rightarrow> world \<Rightarrow> error + world" where
  "write_file p c w =
     (if p \<noteq> [] \<and> is_dir w (butlast p) \<and> \<not> is_dir w p
      then Inr (w\<lparr>fs_files := AList.update p c (fs_files w)\<rparr>)
      else Inl (FileNotFoundError p))"

definition read_file :: "world \<Rightarrow> path \<Rightarrow> error + content" where
  "read_file w p = (case map_of (fs_files w) p of None \<Rightarrow> Inl (FileNotFoundError p) | Some c \<Rightarrow> Inr c)"

text \<open>\<^verbatim>\<open>os.rename(src, dst)\<close> between two names of one directory: \<open>dst\<close> is replaced.\<close>

definition rename_file :: "path \<Rightarrow> path \<Rightarrow> world \<Rightarrow> world" where
  "rename_file src dst w =
     (case map_of (fs_files w) src of
        None \<Rightarrow> w
      | Some c \<Rightarrow> if src = dst then w
                  else w\<lparr>fs_files := AList.update dst c (AList.delete src (fs_files w))\<rparr>)"

text \<open>\<^verbatim>\<open>os.listdir\<close>: the names of the files and of the directories directly below.\<close>

definition listdir :: "world \<Rightarrow> path \<Rightarrow> error + string list" where
  "listdir w d =
     (if is_dir w d
      then Inr (remdups (map (\<lambda>p. last p) (filter (\<lambda>p. p \<noteq> [] \<and> butlast p = d)
                  (map fst (fs_files w) @ fs_dirs w))))
      else if is_file w d then Inl (NotADirectoryError d)
      else Inl (FileNotFoundError d))"

text \<open>\<^verbatim>\<open>ZipFile.extractall(dir)\<close>: every entry is written below \<open>dir\<close>, with its parents.\<close>

fun extract_entries :: "path \<Rightarrow> archive \<Rightarrow> world \<Rightarrow> world" where
  "extract_entries dir [] w = w"
| "extract_entries dir ((p, c) # es) w =
     extract_entries dir es
       ((makedirs (butlast (dir @ p)) w)\<lparr>fs_files := AList.update (dir @ p) c (fs_files (makedirs (butlast (dir @ p)) w))\<rparr>)"

definition extractall :: "path \<Rightarrow> archive \<Rightarrow> world \<Rightarrow> world" where
  "extractall dir a w = emit (ExtractAll dir a) (extract_entries dir a w)"

text \<open>\<^verbatim>\<open>os.walk\<close> with \<^verbatim>\<open>os.path.relpath\<close>: the files below a folder, by relative path.\<close>

definition walk_files :: "world \<Rightarrow> path \<Rightarrow> archive" where
  "walk_files w folder =
     map (\<lambda>(p, c). (drop (length folder) p, c))
       (filter (\<lambda>(p, c). strict_prefix folder p) (fs_files w))"

section \<open>cdf_export.py\<close>

text \<open>
  Every function takes the world and returns it with its result; a raised exception is
  \<open>Inl\<close>, and what was done before it was raised stays done. The \<^verbatim>\<open>headers\<close> argument
  (the bearer token) takes no part in what the scripts do and is left out.
\<close>

definition BACKUP_DIRECTORY :: path where
  "BACKUP_DIRECTORY = [''backup'']"

definition RESTORE_DIRECTORY :: path where
  "RESTORE_DIRECTORY = [''restore'']"

definition GCS_BACKUP_FOLDER :: string where
  "GCS_BACKUP_FOLDER = ''cdf/latest''"

definition GCS_ARCHIVE_FOLDER :: string where
  "GCS_ARCHIVE_FOLDER = ''cdf/archive''"

definition ZIPFILE_NAME :: "env \<Rightarrow> string" where
  "ZIPFILE_NAME en = today en @ ''_backup.zip''"

definition get_access_token :: "env \<Rightarrow> world \<Rightarrow> (error + string) \<times> world" where
  "get_access_token en w =
     (case gcloud_token en of
        Some t \<Rightarrow> (Inr t, log INFO ''Successfully retrieved access token.'' (emit RunGcloud w))
      | None \<Rightarrow> (Inl UnableToRetrieveToken,
                 log CRITICAL ''Failed to retrieve access token'' (emit RunGcloud w)))"

definition fetch_namespaces :: "env \<Rightarrow> world \<Rightarrow> json \<times> world" where
  "fetch_namespaces en w =
     (case get_namespaces en of
        Some j \<Rightarrow> (j, emit (Api ListNamespaces) w)
      | None \<Rightarrow> (JArr [], log ERROR ''Failed to fetch namespaces'' (emit (Api ListNamespaces) w)))"

definition fetch_applications :: "env \<Rightarrow> world \<Rightarrow> (error + path) \<times> world" where
  "fetch_applications en w =
     (case export_apps en of
        None \<Rightarrow> (Inl (ErrorExporting RequestException), emit (Api ExportApps) w)
      | Some r \<Rightarrow>
          let w1 = emit (Api ExportApps) w;
              w2 = (if \<not> path_exists w1 BACKUP_DIRECTORY then makedirs BACKUP_DIRECTORY w1 else w1);
              zip_path = BACKUP_DIRECTORY @ [''exported_apps.zip'']
          in if status_code r \<noteq> 200
             then (Inl (ErrorExporting (ExportStatus (status_code r) (reason r))), w2)
             else (case write_file zip_path (body r) w2 of
                     Inl e \<Rightarrow> (Inl (ErrorExporting e), w2)
                   | Inr w3 \<Rightarrow>
                       let w4 = log INFO ''Downloaded application export'' w3;
                           extracted_dir = BACKUP_DIRECTORY @ [today en @ ''_backup'']
                       in (case body r of
                             Zip a \<Rightarrow> (Inr extracted_dir,
                                        log INFO ''Extracted application details''
                                          (extractall extracted_dir a w4))
                           | _ \<Rightarrow> (Inl (ErrorExporting BadZipFile), w4))))"

definition fetch_pipelines_list :: "env \<Rightarrow> string \<Rightarrow> world \<Rightarrow> json \<times> world" where
  "fetch_pipelines_list en namespace w =
     (case get_drafts en namespace of
        Some j \<Rightarrow> (j, emit (Api (ListDrafts namespace)) w)
      | None \<Rightarrow> (JArr [], log ERROR ''Failed to fetch pipelines'' (emit (Api (ListDrafts namespace)) w)))"

definition fetch_pipeline :: "env \<Rightarrow> string \<Rightarrow> json \<Rightarrow> world \<Rightarrow> json \<times> world" where
  "fetch_pipeline en namespace draft_id w =
     (case get_draft en namespace (py_str en draft_id) of
        Some j \<Rightarrow> (j, emit (Api (GetDraft namespace (py_str en draft_id))) w)
      | None \<Rightarrow> (JNull, log ERROR ''Failed to fetch pipeline''
                         (emit (Api (GetDraft namespace (py_str en draft_id))) w)))"

definition fetch_connections :: "env \<Rightarrow> string \<Rightarrow> world \<Rightarrow> json \<times> world" where
  "fetch_connections en namespace w =
     (case get_connections en namespace of
        Some j \<Rightarrow> (j, emit (Api (ListConnections namespace)) w)
      | None \<Rightarrow> (JArr [], log ERROR ''Failed to fetch connections''
                          (emit (Api (ListConnections namespace)) w)))"

text \<open>\<^verbatim>\<open>save_to_gcs\<close> returns nothing and raises nothing: every exception of the upload is
  caught and logged.\<close>

definition save_to_gcs :: "env \<Rightarrow> string \<Rightarrow> path \<Rightarrow> string \<Rightarrow> world \<Rightarrow> world" where
  "save_to_gcs en file_name file_path bucket_folder w =
     (let blob = bucket_folder @ ''/'' @ file_name;
          w1 = emit (Upload blob) w
      in case read_file w1 file_path of
           Inl e \<Rightarrow> log ERROR ''Failed to save to GCS'' w1
         | Inr c \<Rightarrow>
             if upload_ok en blob
             then log INFO ''Zip file uploaded to GCS bucket''
                    (w1\<lparr>bucket := AList.update blob c (bucket w1)\<rparr>)
             else log ERROR ''Failed to save to GCS'' w1)"

definition compress_folder :: "path \<Rightarrow> world \<Rightarrow> (error + path) \<times> world" where
  "compress_folder folder_path w =
     (if \<not> path_exists w folder_path
      then (Inl (FailedToCompress (FolderDoesNotExist folder_path)), w)
      else let zip_path = butlast folder_path @ [last folder_path @ ''.zip''];
               a = walk_files w folder_path
           in case write_file zip_path (Zip a) w of
                Inl e \<Rightarrow> (Inl (FailedToCompress e), w)
              | Inr w1 \<Rightarrow> (Inr zip_path, log INFO ''Compressed folder saved'' (emit (Compress zip_path a) w1)))"

definition read_from_file :: "world \<Rightarrow> path \<Rightarrow> error + json" where
  "read_from_file w file_path =
     (case read_file w file_path of
        Inl e \<Rightarrow> Inl (ErrorReadingJSON file_path e)
      | Inr (Doc j) \<Rightarrow> Inr j
      | Inr _ \<Rightarrow> Inl (ErrorReadingJSON file_path JSONDecodeError))"

text \<open>\<^verbatim>\<open>blob.name.split("/")[-1].split("_")[0]\<close>, the version a stored archive is found by.\<close>

definition zip_version :: "string \<Rightarrow> string" where
  "zip_version name = split_first (CHR ''_'') (split_last (CHR ''/'') name)"

definition list_zip_blobs :: "world \<Rightarrow> string \<Rightarrow> (string \<times> content) list" where
  "list_zip_blobs w gcs_folder_path =
     filter (\<lambda>b. startswith (fst b) gcs_folder_path \<and> endswith (fst b) ''.zip'') (bucket w)"

definition download_blob :: "(string \<times> content) \<Rightarrow> world \<Rightarrow> (error + path) \<times> world" where
  "download_blob zip_blob w =
     (let zip_filename = split_last (CHR ''/'') (fst zip_blob);
          extract_dir = take (length zip_filename - 4) zip_filename;
          w1 = (if \<not> path_exists w RESTORE_DIRECTORY then makedirs RESTORE_DIRECTORY w else w);
          local_zip_path = RESTORE_DIRECTORY @ [zip_filename];
          local_extract_path = RESTORE_DIRECTORY @ [extract_dir]
      in case write_file local_zip_path (snd zip_blob) (emit (Download (fst zip_blob)) w1) of
           Inl e \<Rightarrow> (Inl (FailedToDownloadAndUnzip e), emit (Download (fst zip_blob)) w1)
         | Inr w2 \<Rightarrow>
             let w3 = log INFO ''Downloaded from GCS bucket'' w2
             in (case snd zip_blob of
                   Zip a \<Rightarrow> (Inr local_extract_path,
                              log INFO ''downloaded and extracted successfully''
                                (log INFO ''Unzipped contents'' (extractall local_extract_path a w3)))
                 | _ \<Rightarrow> (Inl (FailedToDownloadAndUnzip BadZipFile), w3)))"

definition download_and_unzip_from_gcs ::
  "string \<Rightarrow> string option \<Rightarrow> world \<Rightarrow> (error + path) \<times> world" where
  "download_and_unzip_from_gcs gcs_folder_path version w =
     (let zip_files = list_zip_blobs w gcs_folder_path
      in if zip_files = []
         then (Inl (FailedToDownloadAndUnzip (NoZipFilesFound gcs_folder_path)),
               log ERROR ''No .zip files found in folder'' w)
         else (case version of
                 None \<Rightarrow> download_blob (hd zip_files) w
               | Some v \<Rightarrow>
                   if v = [] then download_blob (hd zip_files) w
                   else (case find (\<lambda>b. zip_version (fst b) = v) zip_files of
                           None \<Rightarrow> (Inl (FailedToDownloadAndUnzip (VersionNotFound v)),
                                    log WARNING ''Specified version was not found in archive.'' w)
                         | Some zip_blob \<Rightarrow>
                             download_blob zip_blob
                               (log INFO ''Archive have the Specified version'' w))))"

text \<open>
  \<^verbatim>\<open>save_to_file(filename, content)\<close>. Every caller passes an absolute path, so
  \<^verbatim>\<open>os.path.join(backup_dir, filename)\<close> is \<open>filename\<close> itself; \<^verbatim>\<open>json.dump\<close> of \<^verbatim>\<open>None\<close>
  writes the document \<^verbatim>\<open>null\<close>.
\<close>

definition save_to_file :: "path \<Rightarrow> json \<Rightarrow> world \<Rightarrow> (error + unit) \<times> world" where
  "save_to_file filename content w =
     (let w1 = (if \<not> path_exists w BACKUP_DIRECTORY then makedirs BACKUP_DIRECTORY w else w)
      in case write_file filename (Doc content) w1 of
           Inl e \<Rightarrow> (Inl (FailedToCreateFile filename e), w1)
         | Inr w2 \<Rightarrow> (Inr (), log INFO ''File created successfully.'' (emit (SaveToFile filename content) w2)))"

text \<open>\<^verbatim>\<open>response["configuration"] = configuration_dict\<close>.\<close>

fun py_setitem :: "json \<Rightarrow> string \<Rightarrow> json \<Rightarrow> error + json" where
  "py_setitem (JObj kvs) k v = Inr (JObj (AList.update k v kvs))"
| "py_setitem _ k v = Inl TypeError"

text \<open>
  The body of the loop over the files of one namespace directory in
  \<^verbatim>\<open>format_deployed_apps\<close>. Nothing leaves it: a configuration string that
  \<^verbatim>\<open>json.loads\<close> rejects is logged and the file is left (\<^verbatim>\<open>continue\<close>); every other
  exception (the file is not JSON, the document is no dict, the configuration is no
  string) is logged by the outer handler, the file left as well.
\<close>

definition format_file :: "env \<Rightarrow> path \<Rightarrow> string \<Rightarrow> world \<Rightarrow> world" where
  "format_file en namespace_dir file w =
     (let file_path = namespace_dir @ [file]
      in if \<not> is_file w file_path then w
         else (case read_from_file w file_path of
                 Inl e \<Rightarrow> log ERROR ''Error processing file'' w
               | Inr response \<Rightarrow>
                   (case py_get response ''configuration'' (JStr []) of
                      Inl e \<Rightarrow> log ERROR ''Error processing file'' w
                    | Inr (JStr configuration_str) \<Rightarrow>
                        (case json_loads en configuration_str of
                           None \<Rightarrow> log ERROR ''Failed to parse configuration in file'' w
                         | Some configuration_dict \<Rightarrow>
                             (case py_setitem response ''configuration'' configuration_dict of
                                Inl e \<Rightarrow> log ERROR ''Error processing file'' w
                              | Inr response' \<Rightarrow>
                                  (case write_file file_path (Doc response') w of
                                     Inl e \<Rightarrow> log ERROR ''Error processing file'' w
                                   | Inr w1 \<Rightarrow>
                                       let new_file_path =
                                             namespace_dir @ [''app_'' @ splitext_root file @ ''.json''];
                                           w2 = rename_file file_path new_file_path
                                                  (emit (Rewrite file_path response') w1)
                                       in log INFO ''Formatted and renamed file''
                                            (emit (Rename file_path new_file_path) w2))))
                    | Inr _ \<Rightarrow> log ERROR ''Error processing file'' w)))"

fun format_namespaces :: "env \<Rightarrow> path \<Rightarrow> json list \<Rightarrow> world \<Rightarrow> (error + unit) \<times> world" where
  "format_namespaces en apps_location [] w = (Inr (), w)"
| "format_namespaces en apps_location (namespace # rest) w =
     (case py_getitem namespace ''name'' of
        Inl e \<Rightarrow> (Inl e, w)
      | Inr name \<Rightarrow>
          (case path_join apps_location name of
             Inl e \<Rightarrow> (Inl e, w)
           | Inr namespace_dir \<Rightarrow>
               if \<not> path_exists w namespace_dir
               then format_namespaces en apps_location rest
                      (log WARNING ''Namespace directory does not exist. Skipping.'' w)
               else (case listdir w namespace_dir of
                       Inl e \<Rightarrow> (Inl e, w)
                     | Inr files \<Rightarrow>
                         format_namespaces en apps_location rest
                           (fold (format_file en namespace_dir) files w))))"

definition format_deployed_apps :: "env \<Rightarrow> path \<Rightarrow> json \<Rightarrow> world \<Rightarrow> (error + unit) \<times> world" where
  "format_deployed_apps en apps_location namespaces w =
     (case py_iter namespaces of
        Inl e \<Rightarrow> (Inl e, log INFO ''Formatting Application'' w)
      | Inr nss \<Rightarrow> format_namespaces en apps_location nss (log INFO ''Formatting Application'' w))"

subsection \<open>Backup\<close>

text \<open>The loop over \<^verbatim>\<open>pipelines_list\<close> (lines 386 to 392).\<close>

fun backup_pipelines :: "env \<Rightarrow> string \<Rightarrow> path \<Rightarrow> json list \<Rightarrow> world \<Rightarrow> (error + unit) \<times> world" where
  "backup_pipelines en namespace_name namespace_dir [] w = (Inr (), w)"
| "backup_pipelines en namespace_name namespace_dir (pipeline # rest) w =
     (case py_get pipeline ''name'' JNull of
        Inl e \<Rightarrow> (Inl e, w)
      | Inr pipeline_name \<Rightarrow>
          (case py_get pipeline ''id'' JNull of
             Inl e \<Rightarrow> (Inl e, w)
           | Inr draft_id \<Rightarrow>
               (case fetch_pipeline en namespace_name draft_id w of
                  (content, w1) \<Rightarrow>
                    (case save_to_file
                            (namespace_dir @ [''draft_'' @ py_str en pipeline_name @ ''.json''])
                            content w1 of
                       (Inl e, w2) \<Rightarrow> (Inl e, w2)
                     | (Inr u, w2) \<Rightarrow> backup_pipelines en namespace_name namespace_dir rest w2))))"

text \<open>The loop over \<^verbatim>\<open>connections\<close> (lines 396 to 399).\<close>

fun backup_connections :: "env \<Rightarrow> path \<Rightarrow> json list \<Rightarrow> world \<Rightarrow> (error + unit) \<times> world" where
  "backup_connections en namespace_dir [] w = (Inr (), w)"
| "backup_connections en namespace_dir (connection # rest) w =
     (case py_get connection ''name'' JNull of
        Inl e \<Rightarrow> (Inl e, w)
      | Inr connection_name \<Rightarrow>
          (case save_to_file
                  (namespace_dir @ [''conn_'' @ py_str en connection_name @ ''.json''])
                  connection w of
             (Inl e, w1) \<Rightarrow> (Inl e, w1)
           | (Inr u, w1) \<Rightarrow> backup_connections en namespace_dir rest w1))"

text \<open>The \<^verbatim>\<open>try\<close> block of one namespace (lines 377 to 399).\<close>

definition backup_namespace :: "env \<Rightarrow> path \<Rightarrow> json \<Rightarrow> world \<Rightarrow> (error + unit) \<times> world" where
  "backup_namespace en zip_folder namespace_name w =
     (case path_join zip_folder namespace_name of
        Inl e \<Rightarrow> (Inl e, w)
      | Inr namespace_dir \<Rightarrow>
          let w1 = (if \<not> path_exists w namespace_dir
                    then makedirs namespace_dir (log INFO ''Creating namespace directory'' w)
                    else w);
              w2 = log INFO ''Fetching Pipelines'' w1
          in (case fetch_pipelines_list en (py_str en namespace_name) w2 of
                (pipelines_list, w3) \<Rightarrow>
                  (case py_iter pipelines_list of
                     Inl e \<Rightarrow> (Inl e, w3)
                   | Inr ps \<Rightarrow>
                       (case backup_pipelines en (py_str en namespace_name) namespace_dir ps w3 of
                          (Inl e, w4) \<Rightarrow> (Inl e, w4)
                        | (Inr u, w4) \<Rightarrow>
                            (case fetch_connections en (py_str en namespace_name)
                                    (log INFO ''Fetching Connections'' w4) of
                               (connections, w6) \<Rightarrow>
                                 (case py_iter connections of
                                    Inl e \<Rightarrow> (Inl e, w6)
                                  | Inr cs \<Rightarrow> backup_connections en namespace_dir cs w6))))))"

text \<open>The loop over the namespaces (lines 374 to 401): what the \<^verbatim>\<open>try\<close> block raises is
  logged and the loop goes on; \<^verbatim>\<open>namespace["name"]\<close> stands before the \<^verbatim>\<open>try\<close>.\<close>

fun backup_namespaces :: "env \<Rightarrow> path \<Rightarrow> json list \<Rightarrow> world \<Rightarrow> (error + unit) \<times> world" where
  "backup_namespaces en zip_folder [] w = (Inr (), w)"
| "backup_namespaces en zip_folder (namespace # rest) w =
     (case py_getitem namespace ''name'' of
        Inl e \<Rightarrow> (Inl e, w)
      | Inr namespace_name \<Rightarrow>
          (case backup_namespace en zip_folder namespace_name w of
             (Inl e, w1) \<Rightarrow>
               backup_namespaces en zip_folder rest
                 (log ERROR ''Failed to fetch connections/pipelines for namespace'' w1)
           | (Inr u, w1) \<Rightarrow> backup_namespaces en zip_folder rest w1))"

text \<open>The last \<^verbatim>\<open>try\<close> block (lines 403 to 413): compress, then upload twice.\<close>

definition compress_and_upload :: "env \<Rightarrow> path \<Rightarrow> world \<Rightarrow> world" where
  "compress_and_upload en zip_folder w =
     (case compress_folder zip_folder (log INFO ''Compressing and uploading the backup files to GCS'' w) of
        (Inl e, w1) \<Rightarrow> log ERROR ''Failed to compress and upload backup files to GCS'' w1
      | (Inr zip_path, w1) \<Rightarrow>
          save_to_gcs en ''backup.zip'' zip_path GCS_BACKUP_FOLDER
            (save_to_gcs en (ZIPFILE_NAME en) zip_path GCS_ARCHIVE_FOLDER w1))"

definition backup_application_state :: "env \<Rightarrow> world \<Rightarrow> (error + unit) \<times> world" where
  "backup_application_state en w =
     (case fetch_applications en (log INFO ''Exporting the Deployed applications'' w) of
        (Inl e, w1) \<Rightarrow> (Inl e, w1)
      | (Inr export_dir, w1) \<Rightarrow>
          (case fetch_namespaces en w1 of
             (namespaces, w2) \<Rightarrow>
               if \<not> py_truthy namespaces
               then (Inr (), log WARNING ''No namespaces found to backup.'' w2)
               else (case format_deployed_apps en export_dir namespaces w2 of
                       (Inl e, w3) \<Rightarrow> (Inl e, w3)
                     | (Inr u, w3) \<Rightarrow>
                         let zip_folder = export_dir;
                             w4 = (if \<not> path_exists w3 zip_folder then makedirs zip_folder w3 else w3)
                         in (case save_to_file (zip_folder @ [''namespaces.json'']) namespaces w4 of
                               (Inl e, w5) \<Rightarrow> (Inl e, w5)
                             | (Inr u, w5) \<Rightarrow>
                                 (case py_iter namespaces of
                                    Inl e \<Rightarrow> (Inl e, w5)
                                  | Inr nss \<Rightarrow>
                                      (case backup_namespaces en zip_folder nss w5 of
                                         (Inl e, w6) \<Rightarrow> (Inl e, w6)
                                       | (Inr u, w6) \<Rightarrow>
                                           (Inr (), compress_and_upload en zip_folder w6)))))))"

subsection \<open>Restore\<close>

text \<open>One PUT of the restore: the call is made, and \<^verbatim>\<open>raise_for_status\<close> raises a
  \<^verbatim>\<open>RequestException\<close> unless the service accepts it.\<close>

definition put :: "env \<Rightarrow> api_call \<Rightarrow> world \<Rightarrow> (error + unit) \<times> world" where
  "put en call w =
     (if put_ok en call then (Inr (), emit (Api call) w)
      else (Inl RequestException, emit (Api call) w))"

text \<open>The loop over \<^verbatim>\<open>conn_files\<close> (lines 491 to 504). Reading the file and
  \<^verbatim>\<open>connection["name"]\<close> stand outside the \<^verbatim>\<open>try\<close>.\<close>

fun restore_connections :: "env \<Rightarrow> string \<Rightarrow> path \<Rightarrow> string list \<Rightarrow> world \<Rightarrow> (error + unit) \<times> world" where
  "restore_connections en name namespace_dir [] w = (Inr (), w)"
| "restore_connections en name namespace_dir (blob # rest) w =
     (case read_from_file w (namespace_dir @ [blob]) of
        Inl e \<Rightarrow> (Inl e, w)
      | Inr connection \<Rightarrow>
          (case py_getitem connection ''name'' of
             Inl e \<Rightarrow> (Inl e, w)
           | Inr connection_name \<Rightarrow>
               (case put en (UpsertConnection name (py_str en connection_name) connection) w of
                  (Inl e, w1) \<Rightarrow>
                    restore_connections en name namespace_dir rest
                      (log ERROR ''Failed to restore connection'' w1)
                | (Inr u, w1) \<Rightarrow>
                    restore_connections en name namespace_dir rest
                      (log INFO ''Connection restored'' w1))))"

text \<open>
  The \<^verbatim>\<open>try\<close> block of one draft (lines 478 to 488). Both log lines format
  \<^verbatim>\<open>pipeline['name']\<close>: in the \<^verbatim>\<open>try\<close> a failing lookup is caught like a failed PUT, in
  the handler it is raised to the caller.
\<close>

definition restore_draft_handler :: "json \<Rightarrow> world \<Rightarrow> (error + unit) \<times> world" where
  "restore_draft_handler pipeline w =
     (case py_getitem pipeline ''name'' of
        Inl e \<Rightarrow> (Inl e, w)
      | Inr n \<Rightarrow> (Inr (), log ERROR ''Failed to restore pipeline'' w))"

definition restore_draft :: "env \<Rightarrow> string \<Rightarrow> json \<Rightarrow> world \<Rightarrow> (error + unit) \<times> world" where
  "restore_draft en name pipeline w =
     (case py_getitem pipeline ''id'' of
        Inl e \<Rightarrow> restore_draft_handler pipeline w
      | Inr pipeline_name \<Rightarrow>
          (case put en (UpsertDraft name (py_str en pipeline_name) pipeline) w of
             (Inl e, w1) \<Rightarrow> restore_draft_handler pipeline w1
           | (Inr u, w1) \<Rightarrow>
               (case py_getitem pipeline ''name'' of
                  Inl e \<Rightarrow> restore_draft_handler pipeline w1
                | Inr n \<Rightarrow> (Inr (), log INFO ''Pipeline restored'' w1))))"

text \<open>The loop over \<^verbatim>\<open>pipeline_files\<close> (lines 476 to 504): the loop over the connection
  files is part of its body.\<close>

fun restore_pipelines ::
  "env \<Rightarrow> string \<Rightarrow> path \<Rightarrow> string list \<Rightarrow> string list \<Rightarrow> world \<Rightarrow> (error + unit) \<times> world" where
  "restore_pipelines en name namespace_dir conn_files [] w = (Inr (), w)"
| "restore_pipelines en name namespace_dir conn_files (blob # rest) w =
     (case read_from_file w (namespace_dir @ [blob]) of
        Inl e \<Rightarrow> (Inl e, w)
      | Inr pipeline \<Rightarrow>
          (case restore_draft en name pipeline w of
             (Inl e, w1) \<Rightarrow> (Inl e, w1)
           | (Inr u, w1) \<Rightarrow>
               (case restore_connections en name namespace_dir conn_files w1 of
                  (Inl e, w2) \<Rightarrow> (Inl e, w2)
                | (Inr u, w2) \<Rightarrow> restore_pipelines en name namespace_dir conn_files rest w2)))"

text \<open>The loop over \<^verbatim>\<open>deployed_apps\<close> (lines 462 to 473).\<close>

fun restore_apps :: "env \<Rightarrow> string \<Rightarrow> path \<Rightarrow> string list \<Rightarrow> world \<Rightarrow> (error + unit) \<times> world" where
  "restore_apps en name namespace_dir [] w = (Inr (), w)"
| "restore_apps en name namespace_dir (app # rest) w =
     (case read_from_file w (namespace_dir @ [app]) of
        Inl e \<Rightarrow> (Inl e, w)
      | Inr app_pipeline \<Rightarrow>
          (case py_get app_pipeline ''name'' JNull of
             Inl e \<Rightarrow>
               restore_apps en name namespace_dir rest (log ERROR ''Failed to recreate app'' w)
           | Inr app_name \<Rightarrow>
               (case put en (UpsertApp name (py_str en app_name) app_pipeline) w of
                  (Inl e, w1) \<Rightarrow>
                    restore_apps en name namespace_dir rest (log ERROR ''Failed to recreate app'' w1)
                | (Inr u, w1) \<Rightarrow>
                    restore_apps en name namespace_dir rest (log INFO ''App recreated successfully'' w1))))"

text \<open>What follows the creation of the namespace (lines 461 to 504).\<close>

definition restore_resources :: "env \<Rightarrow> string \<Rightarrow> path \<Rightarrow> string list \<Rightarrow> world \<Rightarrow> (error + unit) \<times> world" where
  "restore_resources en name namespace_dir files w =
     (let conn_files = filter (\<lambda>f. startswith f ''conn'') files;
          pipeline_files = filter (\<lambda>f. \<not> startswith f ''conn'' \<and> startswith f ''draft'') files;
          deployed_apps = filter (\<lambda>f. \<not> startswith f ''conn'' \<and> \<not> startswith f ''draft'') files
      in case restore_apps en name namespace_dir deployed_apps w of
           (Inl e, w1) \<Rightarrow> (Inl e, w1)
         | (Inr u, w1) \<Rightarrow> restore_pipelines en name namespace_dir conn_files pipeline_files w1)"

text \<open>The body of the loop over the namespaces (lines 431 to 504). A namespace whose
  creation fails is left (\<^verbatim>\<open>continue\<close>).\<close>

definition restore_namespace :: "env \<Rightarrow> path \<Rightarrow> json \<Rightarrow> world \<Rightarrow> (error + unit) \<times> world" where
  "restore_namespace en zip_blob_path namespace w =
     (case py_getitem namespace ''name'' of
        Inl e \<Rightarrow> (Inl e, w)
      | Inr name \<Rightarrow>
          (case path_join zip_blob_path name of
             Inl e \<Rightarrow> (Inl e, w)
           | Inr namespace_dir \<Rightarrow>
               (case listdir w namespace_dir of
                  Inl e \<Rightarrow> (Inl e, w)
                | Inr entries \<Rightarrow>
                    let files = filter (\<lambda>f. is_file w (namespace_dir @ [f])) entries
                    in if name \<noteq> JStr ''default''
                       then (case put en (CreateNamespace (py_str en name) namespace) w of
                               (Inl e, w1) \<Rightarrow> (Inr (), log ERROR ''Failed to recreate namespace'' w1)
                             | (Inr u, w1) \<Rightarrow>
                                 restore_resources en (py_str en name) namespace_dir files
                                   (log INFO ''Namespace recreated successfully.'' w1))
                       else restore_resources en (py_str en name) namespace_dir files w)))"

fun restore_namespaces :: "env \<Rightarrow> path \<Rightarrow> json list \<Rightarrow> world \<Rightarrow> (error + unit) \<times> world" where
  "restore_namespaces en zip_blob_path [] w = (Inr (), w)"
| "restore_namespaces en zip_blob_path (namespace # rest) w =
     (case restore_namespace en zip_blob_path namespace w of
        (Inl e, w1) \<Rightarrow> (Inl e, w1)
      | (Inr u, w1) \<Rightarrow> restore_namespaces en zip_blob_path rest w1)"

text \<open>\<^verbatim>\<open>if restore_version:\<close> is false for \<^verbatim>\<open>None\<close> and for the empty string.\<close>

definition restore_application_state :: "env \<Rightarrow> string option \<Rightarrow> world \<Rightarrow> (error + unit) \<times> world" where
  "restore_application_state en restore_version w =
     (case (if restore_version \<noteq> None \<and> restore_version \<noteq> Some []
            then download_and_unzip_from_gcs GCS_ARCHIVE_FOLDER restore_version w
            else download_and_unzip_from_gcs GCS_BACKUP_FOLDER None w) of
        (Inl e, w1) \<Rightarrow> (Inl e, w1)
      | (Inr zip_blob_path, w1) \<Rightarrow>
          (case read_from_file w1 (zip_blob_path @ [''namespaces.json'']) of
             Inl e \<Rightarrow> (Inl e, w1)
           | Inr namespaces \<Rightarrow>
               if \<not> py_truthy namespaces
               then (Inr (), log WARNING ''No namespaces found in backup. Exiting restore process.'' w1)
               else (case py_iter namespaces of
                       Inl e \<Rightarrow> (Inl e, w1)
                     | Inr nss \<Rightarrow> restore_namespaces en zip_blob_path nss w1)))"

subsection \<open>The command line\<close>

datatype operation = Backup | Restore

text \<open>\<^verbatim>\<open>main\<close>: whatever is raised below is logged; the process ends normally.\<close>

definition main :: "env \<Rightarrow> operation \<Rightarrow> string option \<Rightarrow> world \<Rightarrow> world" where
  "main en operation restore_version w =
     (case get_access_token en w of
        (Inl e, w1) \<Rightarrow> log ERROR ''An unexpected error occurred'' w1
      | (Inr access_token, w1) \<Rightarrow>
          (case (case operation of
                   Backup \<Rightarrow> backup_application_state en w1
                 | Restore \<Rightarrow> restore_application_state en restore_version w1) of
             (Inl e, w2) \<Rightarrow> log ERROR ''An unexpected error occurred'' w2
           | (Inr u, w2) \<Rightarrow> w2))"

section \<open>Sample environments\<close>

text \<open>A service that answers nothing, an empty machine and an empty bucket: the concrete
  runs below start from these.\<close>

definition quiet_env :: env where
  "quiet_env = \<lparr> today = ''2024-12-06'', gcloud_token = Some ''tok'', export_apps = None,
     get_namespaces = None, get_drafts = (\<lambda>n. None), get_draft = (\<lambda>n d. None),
     get_connections = (\<lambda>n. None), get_apps = (\<lambda>n. None), get_app = (\<lambda>n a. None),
     put_ok = (\<lambda>c. True), upload_ok = (\<lambda>n. True), json_loads = (\<lambda>s. None),
     py_repr = (\<lambda>j. ''?'') \<rparr>"

definition empty_world :: world where
  "empty_world = \<lparr> fs_files = [], fs_dirs = [], bucket = [], trace = [] \<rparr>"

text \<open>The export endpoint answers with the given status and archive.\<close>

definition export_env :: "int \<Rightarrow> archive \<Rightarrow> env" where
  "export_env code a =
     quiet_env\<lparr>export_apps := Some \<lparr>status_code = code, reason = ''r'', body = Zip a\<rparr>\<rparr>"

text \<open>One namespace \<open>ns1\<close> without drafts and with the connection \<open>c1\<close>.\<close>

definition ns1_env :: env where
  "ns1_env = (export_env 200 [])\<lparr>
     get_namespaces := Some (JArr [JObj [(''name'', JStr ''ns1'')]]),
     get_drafts := (\<lambda>n. Some (JArr [])),
     get_connections := (\<lambda>n. Some (JArr [JObj [(''name'', JStr ''c1'')]]))\<rparr>"

text \<open>Two namespaces: \<open>empty\<close> owns nothing, \<open>ns1\<close> owns the draft \<open>d1\<close> (named \<open>p1\<close>) and
  the connection \<open>c1\<close>.\<close>

definition two_ns_env :: env where
  "two_ns_env = (export_env 200 [])\<lparr>
     get_namespaces := Some (JArr [JObj [(''name'', JStr ''empty'')], JObj [(''name'', JStr ''ns1'')]]),
     get_drafts := (\<lambda>n. Some (JArr (if n = ''ns1''
                      then [JObj [(''id'', JStr ''d1''), (''name'', JStr ''p1'')]] else []))),
     get_draft := (\<lambda>n d. if n = ''ns1'' \<and> d = ''d1''
                      then Some (JObj [(''id'', JStr ''d1''), (''name'', JStr ''p1'')]) else None),
     get_connections := (\<lambda>n. Some (JArr (if n = ''ns1'' then [JObj [(''name'', JStr ''c1'')]] else [])))\<rparr>"

text \<open>A bucket whose latest slot holds an archive of the namespace \<open>ns1\<close>, and the same
  bucket with that archive in the history as well.\<close>

definition ns1_archive :: archive where
  "ns1_archive =
     [([''namespaces.json''], Doc (JArr [JObj [(''name'', JStr ''ns1'')]])),
      ([''ns1'', ''conn_c1.json''], Doc (JObj [(''name'', JStr ''c1'')]))]"

definition latest_world :: world where
  "latest_world = empty_world\<lparr>bucket := [(''cdf/latest/backup.zip'', Zip ns1_archive)]\<rparr>"

definition stored_world :: world where
  "stored_world = empty_world\<lparr>bucket :=
     [(''cdf/archive/2024-12-06_backup.zip'', Zip ns1_archive),
      (''cdf/latest/backup.zip'', Zip ns1_archive)]\<rparr>"

text \<open>
  The sample service: the export holds the deployed application \<open>a\<close> of the namespace
  \<open>ns1\<close>, and \<open>ns1\<close> has no draft and the connection \<open>c1\<close>. \<open>sample_backup_world\<close> is the
  world a backup of it leaves behind on an empty machine.
\<close>

definition sample_env :: env where
  "sample_env = (export_env 200
       [([''ns1'', ''a.json''], Doc (JObj [(''name'', JStr ''a''), (''configuration'', JStr ''{}'')]))])\<lparr>
     get_namespaces := Some (JArr [JObj [(''name'', JStr ''ns1'')]]),
     get_drafts := (\<lambda>n. Some (JArr [])),
     get_connections := (\<lambda>n. Some (JArr [JObj [(''name'', JStr ''c1'')]])),
     json_loads := (\<lambda>s. if s = ''{}'' then Some (JObj []) else None)\<rparr>"

definition sample_archive :: archive where
  "sample_archive =
     [([''ns1'', ''app_a.json''], Doc (JObj [(''name'', JStr ''a''), (''configuration'', JObj [])])),
      ([''namespaces.json''], Doc (JArr [JObj [(''name'', JStr ''ns1'')]])),
      ([''ns1'', ''conn_c1.json''], Doc (JObj [(''name'', JStr ''c1'')]))]"

definition sample_staged_trace :: "event list" where
  "sample_staged_trace =
     [Log INFO ''Exporting the Deployed applications'', Api ExportApps,
      Log INFO ''Downloaded application export'',
      ExtractAll [''backup'', ''2024-12-06_backup'']
        [([''ns1'', ''a.json''], Doc (JObj [(''name'', JStr ''a''), (''configuration'', JStr ''{}'')]))],
      Log INFO ''Extracted application details'', Api ListNamespaces,
      Log INFO ''Formatting Application'',
      Rewrite [''backup'', ''2024-12-06_backup'', ''ns1'', ''a.json'']
        (JObj [(''name'', JStr ''a''), (''configuration'', JObj [])]),
      Rename [''backup'', ''2024-12-06_backup'', ''ns1'', ''a.json'']
        [''backup'', ''2024-12-06_backup'', ''ns1'', ''app_a.json''],
      Log INFO ''Formatted and renamed file'',
      SaveToFile [''backup'', ''2024-12-06_backup'', ''namespaces.json'']
        (JArr [JObj [(''name'', JStr ''ns1'')]]),
      Log INFO ''File created successfully.'',
      Log INFO ''Fetching Pipelines'', Api (ListDrafts ''ns1''),
      Log INFO ''Fetching Connections'', Api (ListConnections ''ns1''),
      SaveToFile [''backup'', ''2024-12-06_backup'', ''ns1'', ''conn_c1.json'']
        (JObj [(''name'', JStr ''c1'')]),
      Log INFO ''File created successfully.'']"

text \<open>The world of that backup when the staging directory is complete, before it is
  compressed and uploaded.\<close>

definition sample_staged_world :: world where
  "sample_staged_world =
     \<lparr>fs_files =
        [([''backup'', ''exported_apps.zip''],
          Zip [([''ns1'', ''a.json''],
                Doc (JObj [(''name'', JStr ''a''), (''configuration'', JStr ''{}'')]))]),
         ([''backup'', ''2024-12-06_backup'', ''ns1'', ''app_a.json''],
          Doc (JObj [(''name'', JStr ''a''), (''configuration'', JObj [])])),
         ([''backup'', ''2024-12-06_backup'', ''namespaces.json''],
          Doc (JArr [JObj [(''name'', JStr ''ns1'')]])),
         ([''backup'', ''2024-12-06_backup'', ''ns1'', ''conn_c1.json''],
          Doc (JObj [(''name'', JStr ''c1'')]))],
      fs_dirs =
        [[], [''backup''], [''backup'', ''2024-12-06_backup''],
         [''backup'', ''2024-12-06_backup'', ''ns1'']],
      bucket = [],
      trace = sample_staged_trace\<rparr>"

definition sample_backup_trace :: "event list" where
  "sample_backup_trace =
     sample_staged_trace @
     [Log INFO ''Compressing and uploading the backup files to GCS'',
      Compress [''backup'', ''2024-12-06_backup.zip''] sample_archive,
      Log INFO ''Compressed folder saved'',
      Upload ''cdf/archive/2024-12-06_backup.zip'',
      Log INFO ''Zip file uploaded to GCS bucket'',
      Upload ''cdf/latest/backup.zip'',
      Log INFO ''Zip file uploaded to GCS bucket'']"

definition sample_backup_world :: world where
  "sample_backup_world =
     \<lparr>fs_files =
        [([''backup'', ''exported_apps.zip''],
          Zip [([''ns1'', ''a.json''],
                Doc (JObj [(''name'', JStr ''a''), (''configuration'', JStr ''{}'')]))]),
         ([''backup'', ''2024-12-06_backup'', ''ns1'', ''app_a.json''],
          Doc (JObj [(''name'', JStr ''a''), (''configuration'', JObj [])])),
         ([''backup'', ''2024-12-06_backup'', ''namespaces.json''],
          Doc (JArr [JObj [(''name'', JStr ''ns1'')]])),
         ([''backup'', ''2024-12-06_backup'', ''ns1'', ''conn_c1.json''],
          Doc (JObj [(''name'', JStr ''c1'')])),
         ([''backup'', ''2024-12-06_backup.zip''], Zip sample_archive)],
      fs_dirs =
        [[], [''backup''], [''backup'', ''2024-12-06_backup''],
         [''backup'', ''2024-12-06_backup'', ''ns1'']],
      bucket =
        [(''cdf/archive/2024-12-06_backup.zip'', Zip sample_archive),
         (''cdf/latest/backup.zip'', Zip sample_archive)],
      trace = sample_backup_trace\<rparr>"


section \<open>Observations on a run\<close>

text \<open>The calls that write to the service: the creation of a namespace and the three
  upserts.\<close>

fun is_write_call :: "event \<Rightarrow> bool" where
  "is_write_call (Api (CreateNamespace n j)) = True"
| "is_write_call (Api (UpsertApp n a j)) = True"
| "is_write_call (Api (UpsertDraft n a j)) = True"
| "is_write_call (Api (UpsertConnection n a j)) = True"
| "is_write_call e = False"

text \<open>\<open>extends w w'\<close>: \<open>w'\<close> is \<open>w\<close> with more events; files, directories and bucket are
  the same.\<close>

definition extends :: "world \<Rightarrow> world \<Rightarrow> bool" where
  "extends w w' = (fs_files w' = fs_files w \<and> fs_dirs w' = fs_dirs w \<and> bucket w' = bucket w
                   \<and> prefix (trace w) (trace w'))"

text \<open>The events by which \<^verbatim>\<open>save_to_file\<close> records a written file.\<close>

fun is_save :: "event \<Rightarrow> bool" where
  "is_save (SaveToFile p j) = True"
| "is_save e = False"

text \<open>The staging directory of a backup run, and the events on it: \<^verbatim>\<open>namespaces.json\<close> is
  saved; any other file is saved; a file is put below a namespace directory, by whatever
  step of the run.\<close>

definition staging :: "env \<Rightarrow> path" where
  "staging en = BACKUP_DIRECTORY @ [today en @ ''_backup'']"

definition saves_namespaces_json :: "env \<Rightarrow> event \<Rightarrow> bool" where
  "saves_namespaces_json en e =
     (case e of SaveToFile p j \<Rightarrow> p = staging en @ [''namespaces.json''] | _ \<Rightarrow> False)"

definition saves_resource :: "env \<Rightarrow> event \<Rightarrow> bool" where
  "saves_resource en e =
     (case e of SaveToFile p j \<Rightarrow> p \<noteq> staging en @ [''namespaces.json''] | _ \<Rightarrow> False)"

definition populates_namespace_dir :: "env \<Rightarrow> event \<Rightarrow> bool" where
  "populates_namespace_dir en e =
     (case e of
        ExtractAll d a \<Rightarrow> d = staging en \<and> list_ex (\<lambda>pc. 2 \<le> length (fst pc)) a
      | SaveToFile p j \<Rightarrow> strict_prefix (staging en) (butlast p)
      | Rewrite p j \<Rightarrow> strict_prefix (staging en) (butlast p)
      | Rename p q \<Rightarrow> strict_prefix (staging en) (butlast q)
      | _ \<Rightarrow> False)"

text \<open>\<open>no_earlier P Q tr\<close>: no event with \<open>Q\<close> stands in \<open>tr\<close> before the first event with
  \<open>P\<close> (and none at all when no event has \<open>P\<close>).\<close>

definition no_earlier :: "(event \<Rightarrow> bool) \<Rightarrow> (event \<Rightarrow> bool) \<Rightarrow> event list \<Rightarrow> bool" where
  "no_earlier P Q tr = list_all (\<lambda>e. \<not> Q e) (takeWhile (\<lambda>e. \<not> P e) tr)"

text \<open>The two names under which a backup run uploads its archive.\<close>

definition archive_slot :: "env \<Rightarrow> string" where
  "archive_slot en = GCS_ARCHIVE_FOLDER @ ''/'' @ ZIPFILE_NAME en"

definition latest_slot :: string where
  "latest_slot = GCS_BACKUP_FOLDER @ ''/'' @ ''backup.zip''"

text \<open>The sample service when only the upload to the latest slot succeeds.\<close>

definition history_down_env :: env where
  "history_down_env = sample_env\<lparr>upload_ok := (\<lambda>n. n = ''cdf/latest/backup.zip'')\<rparr>"

section \<open>Properties\<close>

lemmas fs_defs = write_file_def path_exists_def is_dir_def is_file_def makedirs_def emit_def log_def
   read_file_def

lemmas all_defs = splitext_root_def startswith_def endswith_def split_last_def split_first_def
  py_str_def emit_def log_def is_file_def is_dir_def path_exists_def makedirs_def
  write_file_def read_file_def rename_file_def listdir_def extractall_def walk_files_def
  BACKUP_DIRECTORY_def RESTORE_DIRECTORY_def GCS_BACKUP_FOLDER_def GCS_ARCHIVE_FOLDER_def
  ZIPFILE_NAME_def get_access_token_def fetch_namespaces_def fetch_applications_def
  fetch_pipelines_list_def fetch_pipeline_def fetch_connections_def save_to_gcs_def
  compress_folder_def read_from_file_def zip_version_def list_zip_blobs_def download_blob_def
  download_and_unzip_from_gcs_def save_to_file_def format_file_def format_deployed_apps_def
  backup_namespace_def compress_and_upload_def backup_application_state_def put_def
  restore_draft_handler_def restore_draft_def restore_resources_def restore_namespace_def
  restore_application_state_def main_def quiet_env_def empty_world_def export_env_def
  ns1_env_def two_ns_env_def ns1_archive_def latest_world_def stored_world_def

lemmas staged_defs = splitext_root_def startswith_def endswith_def split_last_def
  split_first_def py_str_def emit_def log_def is_file_def is_dir_def path_exists_def
  makedirs_def write_file_def read_file_def rename_file_def listdir_def extractall_def
  walk_files_def BACKUP_DIRECTORY_def RESTORE_DIRECTORY_def GCS_BACKUP_FOLDER_def
  GCS_ARCHIVE_FOLDER_def ZIPFILE_NAME_def get_access_token_def fetch_namespaces_def
  fetch_applications_def fetch_pipelines_list_def fetch_pipeline_def fetch_connections_def
  save_to_gcs_def compress_folder_def read_from_file_def zip_version_def list_zip_blobs_def
  download_blob_def download_and_unzip_from_gcs_def save_to_file_def format_file_def
  format_deployed_apps_def backup_namespace_def backup_application_state_def put_def
  restore_draft_handler_def restore_draft_def restore_resources_def restore_namespace_def
  restore_application_state_def main_def quiet_env_def empty_world_def export_env_def
  ns1_env_def two_ns_env_def ns1_archive_def latest_world_def stored_world_def

lemmas run_simps = all_defs Let_def List.union_def List.insert_def

lemma trace_extract_entries [simp]: "trace (extract_entries d a w) = trace w"
  by (induction d a w rule: extract_entries.induct) (simp_all add: makedirs_def)

lemma bucket_extract_entries [simp]: "bucket (extract_entries d a w) = bucket w"
  by (induction d a w rule: extract_entries.induct) (simp_all add: makedirs_def)



subsection \<open>The order of the first steps of a backup\<close>





subsection \<open>The status check of the bulk export\<close>




subsection \<open>Restore of a version that is not stored\<close>

lemma download_no_match:
  assumes "v \<noteq> []" "\<forall>b\<in>set (list_zip_blobs w GCS_ARCHIVE_FOLDER). zip_version (fst b) \<noteq> v"
  shows "download_and_unzip_from_gcs GCS_ARCHIVE_FOLDER (Some v) w =
           (if list_zip_blobs w GCS_ARCHIVE_FOLDER = []
            then (Inl (FailedToDownloadAndUnzip (NoZipFilesFound GCS_ARCHIVE_FOLDER)),
                  log ERROR ''No .zip files found in folder'' w)
            else (Inl (FailedToDownloadAndUnzip (VersionNotFound v)),
                  log WARNING ''Specified version was not found in archive.'' w))"
proof -
  have "find (\<lambda>b. zip_version (fst b) = v) (list_zip_blobs w GCS_ARCHIVE_FOLDER) = None"
    using assms(2) by (auto simp add: find_None_iff)
  then show ?thesis
    using assms(1) by (simp add: download_and_unzip_from_gcs_def Let_def)
qed

text \<open>
  C6 (as amended). A restore with a non-empty version string that no archive of the history
  location is found by fails before any call to the service: with the version-not-found
  error when the history holds a .zip blob, with the no-zip-files error when it holds
  none. No write call is made.
\<close>

theorem restore_unknown_version:
  assumes "v \<noteq> []" "\<forall>b\<in>set (list_zip_blobs w GCS_ARCHIVE_FOLDER). zip_version (fst b) \<noteq> v"
  shows "restore_application_state en (Some v) w =
           (if list_zip_blobs w GCS_ARCHIVE_FOLDER = []
            then (Inl (FailedToDownloadAndUnzip (NoZipFilesFound GCS_ARCHIVE_FOLDER)),
                  log ERROR ''No .zip files found in folder'' w)
            else (Inl (FailedToDownloadAndUnzip (VersionNotFound v)),
                  log WARNING ''Specified version was not found in archive.'' w))
       \<and> filter is_write_call (trace (snd (restore_application_state en (Some v) w)))
           = filter is_write_call (trace w)"
proof -
  have l: "list_zip_blobs (log l m w) f = list_zip_blobs w f" for l m f
    by (simp add: list_zip_blobs_def log_def emit_def)
  show ?thesis
    using assms by (simp add: restore_application_state_def download_no_match log_def emit_def)
qed

text \<open>C6 on a history that holds the archive of 2024-12-06 only.\<close>

theorem restore_unknown_version_witness:
  "''2024-12-07'' \<noteq> []
   \<and> map (\<lambda>b. zip_version (fst b)) (list_zip_blobs stored_world GCS_ARCHIVE_FOLDER) = [''2024-12-06'']
   \<and> restore_application_state quiet_env (Some ''2024-12-07'') stored_world =
       (Inl (FailedToDownloadAndUnzip (VersionNotFound ''2024-12-07'')),
        log WARNING ''Specified version was not found in archive.'' stored_world)
   \<and> filter is_write_call
        (trace (snd (restore_application_state quiet_env (Some ''2024-12-07'') stored_world))) = []"
proof -
  have l: "list_zip_blobs stored_world GCS_ARCHIVE_FOLDER
             = [(''cdf/archive/2024-12-06_backup.zip'', Zip ns1_archive)]"
    by (simp add: list_zip_blobs_def stored_world_def empty_world_def GCS_ARCHIVE_FOLDER_def
          startswith_def endswith_def)
  have z: "zip_version ''cdf/archive/2024-12-06_backup.zip'' = ''2024-12-06''"
    by (simp add: zip_version_def split_first_def split_last_def)
  have h: "''2024-12-07'' \<noteq> []"
      "\<forall>b\<in>set (list_zip_blobs stored_world GCS_ARCHIVE_FOLDER). zip_version (fst b) \<noteq> ''2024-12-07''"
    by (simp_all add: l z)
  have t: "trace stored_world = []"
    by (simp add: stored_world_def empty_world_def)
  from restore_unknown_version[OF h, of quiet_env] show ?thesis
    by (simp add: l z t log_def emit_def)
qed

text \<open>C6 as stated fails twice: on an empty history the error is the one for a folder
  without .zip files, not version-not-found; and the empty version string, which no archive
  is found by, is taken for no version at all, so that the latest archive is restored and
  the service is written to.\<close>

theorem restore_unknown_version_counterexample:
  "list_zip_blobs latest_world GCS_ARCHIVE_FOLDER = []
   \<and> fst (restore_application_state quiet_env (Some ''2024-12-06'') latest_world)
       = Inl (FailedToDownloadAndUnzip (NoZipFilesFound ''cdf/archive''))
   \<and> filter is_write_call (trace (snd (restore_application_state quiet_env (Some []) latest_world)))
       = [Api (CreateNamespace ''ns1'' (JObj [(''name'', JStr ''ns1'')]))]"
  by code_simp


subsection \<open>Restore only adds events\<close>


lemma extends_trans: "extends w w1 \<Longrightarrow> extends w1 w2 \<Longrightarrow> extends w w2"
  by (auto simp: extends_def)

lemma extends_emit [simp]: "extends w (emit e w)"
  by (simp add: extends_def emit_def)

lemma extends_log [simp]: "extends w (log l m w)"
  by (simp add: log_def)

lemma extends_emit': "extends w w1 \<Longrightarrow> extends w (emit e w1)"
  by (auto simp: extends_def emit_def prefix_def)


lemma extends_read [simp]:
  assumes "extends w w'"
  shows "read_from_file w' p = read_from_file w p" "listdir w' p = listdir w p"
    "is_file w' p = is_file w p" "path_exists w' p = path_exists w p"
  using assms by (simp_all add: extends_def read_from_file_def read_file_def listdir_def is_file_def
      is_dir_def path_exists_def)

lemma extends_put: "extends w0 w \<Longrightarrow> extends w0 (snd (put en c w))"
  by (simp add: put_def extends_emit')










subsection \<open>The trace of a backup only grows\<close>

lemma grows_emit: "prefix t (trace w) \<Longrightarrow> prefix t (trace (emit e w))"
  by (auto simp: emit_def prefix_def)

lemma grows_log: "prefix t (trace w) \<Longrightarrow> prefix t (trace (log l m w))"
  by (simp add: log_def grows_emit)

lemma trace_makedirs [simp]: "trace (makedirs p w) = trace w"
  by (simp add: makedirs_def)

lemma trace_write_file: "write_file p c w = Inr w1 \<Longrightarrow> trace w1 = trace w"
  by (auto simp: write_file_def split: if_splits)

lemma grows_save_to_file:
  "save_to_file p j w = (r, w') \<Longrightarrow> prefix t (trace w) \<Longrightarrow> prefix t (trace w')"
  by (auto simp: save_to_file_def Let_def split: sum.splits dest!: trace_write_file
        intro!: grows_log grows_emit)

lemma grows_fetch_pipelines_list:
  "fetch_pipelines_list en n w = (r, w') \<Longrightarrow> prefix t (trace w) \<Longrightarrow> prefix t (trace w')"
  by (auto simp: fetch_pipelines_list_def split: option.splits intro!: grows_log grows_emit)

lemma grows_fetch_pipeline:
  "fetch_pipeline en n d w = (r, w') \<Longrightarrow> prefix t (trace w) \<Longrightarrow> prefix t (trace w')"
  by (auto simp: fetch_pipeline_def split: option.splits intro!: grows_log grows_emit)

lemma grows_fetch_connections:
  "fetch_connections en n w = (r, w') \<Longrightarrow> prefix t (trace w) \<Longrightarrow> prefix t (trace w')"
  by (auto simp: fetch_connections_def split: option.splits intro!: grows_log grows_emit)

lemma grows_backup_pipelines:
  "backup_pipelines en n d ps w = (r, w') \<Longrightarrow> prefix t (trace w) \<Longrightarrow> prefix t (trace w')"
proof (induction ps arbitrary: w)
  case Nil
  then show ?case by simp
next
  case (Cons p ps)
  show ?case
  proof (cases "py_get p ''name'' JNull")
    case (Inl e)
    then show ?thesis using Cons.prems by auto
  next
    case (Inr nm)
    note nm = this
    show ?thesis
    proof (cases "py_get p ''id'' JNull")
      case (Inl e)
      then show ?thesis using Cons.prems nm by auto
    next
      case (Inr i)
      obtain c w1 where f: "fetch_pipeline en n i w = (c, w1)" by (cases "fetch_pipeline en n i w")
      have g1: "prefix t (trace w1)" using grows_fetch_pipeline[OF f Cons.prems(2)] .
      obtain r2 w2 where s: "save_to_file (d @ [''draft_'' @ py_str en nm @ ''.json'']) c w1 = (r2, w2)"
        by (cases "save_to_file (d @ [''draft_'' @ py_str en nm @ ''.json'']) c w1")
      have g2: "prefix t (trace w2)" using grows_save_to_file[OF s g1] .
      show ?thesis
      proof (cases r2)
        case (Inl e)
        then show ?thesis using nm Inr f s g2 Cons.prems(1) by auto
      next
        case u: (Inr u)
        then have "backup_pipelines en n d ps w2 = (r, w')" using nm Inr f s Cons.prems(1) by simp
        from Cons.IH[OF this g2] show ?thesis .
      qed
    qed
  qed
qed

lemma grows_backup_connections:
  "backup_connections en d cs w = (r, w') \<Longrightarrow> prefix t (trace w) \<Longrightarrow> prefix t (trace w')"
proof (induction cs arbitrary: w)
  case Nil
  then show ?case by simp
next
  case (Cons c cs)
  show ?case
  proof (cases "py_get c ''name'' JNull")
    case (Inl e)
    then show ?thesis using Cons.prems by auto
  next
    case (Inr nm)
    obtain r2 w2 where s: "save_to_file (d @ [''conn_'' @ py_str en nm @ ''.json'']) c w = (r2, w2)"
      by (cases "save_to_file (d @ [''conn_'' @ py_str en nm @ ''.json'']) c w")
    have g2: "prefix t (trace w2)" using grows_save_to_file[OF s Cons.prems(2)] .
    show ?thesis
    proof (cases r2)
      case (Inl e)
      then show ?thesis using Inr s g2 Cons.prems(1) by auto
    next
      case u: (Inr u)
      then have "backup_connections en d cs w2 = (r, w')" using Inr s Cons.prems(1) by simp
      from Cons.IH[OF this g2] show ?thesis .
    qed
  qed
qed

lemma grows_backup_namespace:
  assumes run: "backup_namespace en zf nm w = (r, w')" and pre: "prefix t (trace w)"
  shows "prefix t (trace w')"
proof (cases "path_join zf nm")
  case (Inl e)
  then show ?thesis using assms by (auto simp add: backup_namespace_def)
next
  case (Inr d)
  let ?w1 = "if \<not> path_exists w d then makedirs d (log INFO ''Creating namespace directory'' w) else w"
  let ?w2 = "log INFO ''Fetching Pipelines'' ?w1"
  have g2: "prefix t (trace ?w2)" using pre by (auto intro!: grows_log)
  obtain pl w3 where a: "fetch_pipelines_list en (py_str en nm) ?w2 = (pl, w3)"
    by (cases "fetch_pipelines_list en (py_str en nm) ?w2")
  have g3: "prefix t (trace w3)" using grows_fetch_pipelines_list[OF a g2] .
  show ?thesis
  proof (cases "py_iter pl")
    case (Inl e)
    then show ?thesis using Inr a g3 run by (auto simp add: backup_namespace_def Let_def)
  next
    case ps: (Inr ps)
    obtain r4 w4 where b: "backup_pipelines en (py_str en nm) d ps w3 = (r4, w4)"
      by (cases "backup_pipelines en (py_str en nm) d ps w3")
    have g4: "prefix t (trace w4)" using grows_backup_pipelines[OF b g3] .
    obtain cl w6 where c: "fetch_connections en (py_str en nm) (log INFO ''Fetching Connections'' w4) = (cl, w6)"
      by (cases "fetch_connections en (py_str en nm) (log INFO ''Fetching Connections'' w4)")
    have g6: "prefix t (trace w6)" using grows_fetch_connections[OF c grows_log[OF g4]] .
    show ?thesis
    proof (cases r4)
      case (Inl e)
      then show ?thesis using Inr a ps b g4 run by (auto simp add: backup_namespace_def Let_def)
    next
      case u: (Inr u)
      show ?thesis
      proof (cases "py_iter cl")
        case (Inl e)
        then show ?thesis using Inr a ps b u c g6 run by (auto simp add: backup_namespace_def Let_def)
      next
        case cs: (Inr cs)
        then have "backup_connections en d cs w6 = (r, w')"
          using Inr a ps b u c run by (simp add: backup_namespace_def Let_def)
        from grows_backup_connections[OF this g6] show ?thesis .
      qed
    qed
  qed
qed

lemma grows_backup_namespaces:
  "backup_namespaces en zf nss w = (r, w') \<Longrightarrow> prefix t (trace w) \<Longrightarrow> prefix t (trace w')"
proof (induction nss arbitrary: w)
  case Nil
  then show ?case by simp
next
  case (Cons n nss)
  show ?case
  proof (cases "py_getitem n ''name''")
    case (Inl e)
    then show ?thesis using Cons.prems by auto
  next
    case (Inr nm)
    obtain r1 w1 where a: "backup_namespace en zf nm w = (r1, w1)" by (cases "backup_namespace en zf nm w")
    have g1: "prefix t (trace w1)" using grows_backup_namespace[OF a Cons.prems(2)] .
    show ?thesis
    proof (cases r1)
      case (Inl e)
      then have "backup_namespaces en zf nss
                   (log ERROR ''Failed to fetch connections/pipelines for namespace'' w1) = (r, w')"
        using Inr a Cons.prems(1) by simp
      from Cons.IH[OF this grows_log[OF g1]] show ?thesis .
    next
      case u: (Inr u)
      then have "backup_namespaces en zf nss w1 = (r, w')" using Inr a Cons.prems(1) by simp
      from Cons.IH[OF this g1] show ?thesis .
    qed
  qed
qed

lemma grows_compress_folder:
  "compress_folder f w = (r, w') \<Longrightarrow> prefix t (trace w) \<Longrightarrow> prefix t (trace w')"
  by (auto simp: compress_folder_def Let_def split: sum.splits if_splits dest!: trace_write_file
        intro!: grows_log grows_emit)

lemma grows_save_to_gcs:
  "prefix t (trace w) \<Longrightarrow> prefix t (trace (save_to_gcs en n p f w))"
  by (auto simp: save_to_gcs_def Let_def read_file_def emit_def log_def prefix_def
        split: sum.splits option.splits)

lemma grows_compress_and_upload:
  assumes "prefix t (trace w)"
  shows "prefix t (trace (compress_and_upload en zf w))"
proof -
  let ?w0 = "log INFO ''Compressing and uploading the backup files to GCS'' w"
  obtain r w1 where a: "compress_folder zf ?w0 = (r, w1)" by (cases "compress_folder zf ?w0")
  have g1: "prefix t (trace w1)" using grows_compress_folder[OF a grows_log[OF assms]] .
  show ?thesis
    using a g1 by (auto simp: compress_and_upload_def split: sum.splits
        intro!: grows_log grows_save_to_gcs)
qed


subsection \<open>The first file that is saved\<close>

lemma nosave_emit: "\<not> is_save e \<Longrightarrow> filter is_save (trace (emit e w)) = filter is_save (trace w)"
  by (simp add: emit_def)

lemma nosave_log [simp]: "filter is_save (trace (log l m w)) = filter is_save (trace w)"
  by (simp add: log_def emit_def)

lemma nosave_fetch_applications:
  "fetch_applications en w = (r, w') \<Longrightarrow> filter is_save (trace w') = filter is_save (trace w)"
  by (auto simp: fetch_applications_def Let_def extractall_def emit_def log_def
        split: option.splits sum.splits if_splits content.splits dest!: trace_write_file)

lemma nosave_fetch_namespaces:
  "fetch_namespaces en w = (r, w') \<Longrightarrow> filter is_save (trace w') = filter is_save (trace w)"
  by (auto simp: fetch_namespaces_def emit_def log_def split: option.splits)

lemma trace_rename_file [simp]: "trace (rename_file a b w) = trace w"
  by (simp add: rename_file_def split: option.splits)

lemma nosave_format_file:
  "filter is_save (trace (format_file en d f w)) = filter is_save (trace w)"
  by (auto simp: format_file_def Let_def emit_def log_def
        split: sum.splits json.splits option.splits dest!: trace_write_file)

lemma nosave_format_files:
  "filter is_save (trace (fold (format_file en d) fs w)) = filter is_save (trace w)"
  by (induction fs arbitrary: w) (simp_all add: nosave_format_file)

lemma nosave_format_namespaces:
  "format_namespaces en d nss w = (r, w') \<Longrightarrow> filter is_save (trace w') = filter is_save (trace w)"
proof (induction nss arbitrary: w)
  case Nil
  then show ?case by simp
next
  case (Cons n nss)
  then show ?case
    by (auto simp: nosave_format_files split: sum.splits if_splits)
qed

lemma nosave_format_deployed_apps:
  "format_deployed_apps en d ns w = (r, w') \<Longrightarrow> filter is_save (trace w') = filter is_save (trace w)"
  by (auto simp: format_deployed_apps_def split: sum.splits dest!: nosave_format_namespaces)

lemma no_earlier_nosave:
  assumes "filter is_save tr = []" "\<And>e. Q e \<Longrightarrow> is_save e"
  shows "no_earlier P Q tr"
proof -
  have "\<forall>e\<in>set tr. \<not> is_save e" using assms(1) by (simp add: filter_empty_conv)
  then have "\<forall>e\<in>set (takeWhile (\<lambda>e. \<not> P e) tr). \<not> Q e"
    using assms(2) by (meson set_takeWhileD)
  then show ?thesis by (simp add: no_earlier_def list_all_iff)
qed

lemma no_earlier_prefix:
  assumes "prefix (t0 @ [a]) tr" "P a" "filter is_save t0 = []"
    "\<And>e. Q e \<Longrightarrow> is_save e" "\<And>e. P e \<Longrightarrow> is_save e"
  shows "no_earlier P Q tr"
proof -
  obtain more where tr: "tr = t0 @ a # more" using assms(1) by (auto simp: prefix_def)
  have ns: "\<forall>e\<in>set t0. \<not> is_save e" using assms(3) by (simp add: filter_empty_conv)
  then have "\<forall>e\<in>set t0. \<not> P e" using assms(5) by blast
  then have "takeWhile (\<lambda>e. \<not> P e) tr = t0" using assms(2) by (simp add: tr takeWhile_append2)
  then show ?thesis using ns assms(4) by (auto simp add: no_earlier_def list_all_iff)
qed

lemma save_to_file_trace:
  "save_to_file p j w = (Inr u, w') \<Longrightarrow>
     trace w' = trace w @ [SaveToFile p j, Log INFO ''File created successfully.'']"
  by (auto simp: save_to_file_def Let_def emit_def log_def split: sum.splits dest!: trace_write_file)

lemma save_to_file_fail_trace:
  "save_to_file p j w = (Inl e, w') \<Longrightarrow> trace w' = trace w"
  by (auto simp: save_to_file_def Let_def split: sum.splits)

text \<open>
  C3 (as amended). In every backup run \<^verbatim>\<open>namespaces.json\<close> is the first file that
  \<^verbatim>\<open>save_to_file\<close> writes: no draft file and no connection file is saved before it. (The
  deployed-app files are in the namespace directories before it: the export is unpacked
  and formatted first.)
\<close>

theorem namespaces_json_saved_first:
  assumes "filter is_save (trace w) = []"
  shows "no_earlier (saves_namespaces_json en) (saves_resource en)
           (trace (snd (backup_application_state en w)))"
proof -
  let ?P = "saves_namespaces_json en" and ?Q = "saves_resource en"
  have Q: "\<And>e. ?Q e \<Longrightarrow> is_save e" by (auto simp: saves_resource_def split: event.splits)
  have P: "\<And>e. ?P e \<Longrightarrow> is_save e" by (auto simp: saves_namespaces_json_def split: event.splits)
  let ?w0 = "log INFO ''Exporting the Deployed applications'' w"
  obtain r1 w1 where s1: "fetch_applications en ?w0 = (r1, w1)" by (cases "fetch_applications en ?w0")
  have n1: "filter is_save (trace w1) = []" using nosave_fetch_applications[OF s1] assms by simp
  show ?thesis
  proof (cases r1)
    case (Inl e)
    then show ?thesis using s1 n1 by (simp add: backup_application_state_def no_earlier_nosave[OF _ Q])
  next
    case d: (Inr d)
    obtain ns w2 where s2: "fetch_namespaces en w1 = (ns, w2)" by (cases "fetch_namespaces en w1")
    have n2: "filter is_save (trace w2) = []" using nosave_fetch_namespaces[OF s2] n1 by simp
    show ?thesis
    proof (cases "py_truthy ns")
      case False
      then show ?thesis
        using s1 d s2 n2 by (simp add: backup_application_state_def no_earlier_nosave[OF _ Q])
    next
      case True
      obtain r3 w3 where s3: "format_deployed_apps en d ns w2 = (r3, w3)"
        by (cases "format_deployed_apps en d ns w2")
      have n3: "filter is_save (trace w3) = []" using nosave_format_deployed_apps[OF s3] n2 by simp
      show ?thesis
      proof (cases r3)
        case (Inl e)
        then show ?thesis
          using s1 d s2 True s3 n3 by (simp add: backup_application_state_def no_earlier_nosave[OF _ Q])
      next
        case u3: (Inr u3)
        let ?w4 = "if \<not> path_exists w3 d then makedirs d w3 else w3"
        have t4: "trace ?w4 = trace w3" by simp
        have n4: "filter is_save (trace ?w4) = []" using n3 by simp
        obtain r5 w5 where s5: "save_to_file (d @ [''namespaces.json'']) ns ?w4 = (r5, w5)"
          by (cases "save_to_file (d @ [''namespaces.json'']) ns ?w4")
        have dd: "d = staging en"
          using s1 d by (auto simp: fetch_applications_def Let_def staging_def
              split: option.splits if_splits sum.splits content.splits)
        show ?thesis
        proof (cases r5)
          case (Inl e)
          then have "filter is_save (trace w5) = []" using save_to_file_fail_trace s5 n4 by metis
          then show ?thesis
            using s1 d s2 True s3 u3 s5 Inl
            by (simp add: backup_application_state_def Let_def no_earlier_nosave[OF _ Q])
        next
          case u5: (Inr u5)
          have t5: "trace w5 = trace w3 @ [SaveToFile (d @ [''namespaces.json'']) ns,
                       Log INFO ''File created successfully.'']"
            using save_to_file_trace[of _ _ ?w4] s5 u5 t4 by metis
          then have p5: "prefix (trace w3 @ [SaveToFile (d @ [''namespaces.json'']) ns]) (trace w5)"
            by (simp add: prefix_def)
          have Pa: "?P (SaveToFile (d @ [''namespaces.json'']) ns)"
            by (simp add: saves_namespaces_json_def dd)
          have fin: "prefix (trace w3 @ [SaveToFile (d @ [''namespaces.json'']) ns])
                       (trace (snd (backup_application_state en w)))"
          proof (cases "py_iter ns")
            case (Inl e)
            then show ?thesis
              using s1 d s2 True s3 u3 s5 u5 p5 by (simp add: backup_application_state_def Let_def)
          next
            case nss: (Inr nss)
            obtain r6 w6 where s6: "backup_namespaces en d nss w5 = (r6, w6)"
              by (cases "backup_namespaces en d nss w5")
            have p6: "prefix (trace w3 @ [SaveToFile (d @ [''namespaces.json'']) ns]) (trace w6)"
              using grows_backup_namespaces[OF s6 p5] .
            show ?thesis
              using s1 d s2 True s3 u3 s5 u5 nss s6 p6 grows_compress_and_upload[OF p6]
              by (simp add: backup_application_state_def Let_def split: sum.splits)
          qed
          show ?thesis
            by (rule no_earlier_prefix[where P="?P" and Q="?Q", OF fin Pa n3 Q P])
        qed
      qed
    qed
  qed
qed

subsection \<open>The backup of the sample service\<close>

lemma sample_staged_run:
  "backup_application_state (sample_env\<lparr>upload_ok := ok\<rparr>) empty_world =
     (Inr (), compress_and_upload (sample_env\<lparr>upload_ok := ok\<rparr>) [''backup'', ''2024-12-06_backup'']
                sample_staged_world)"
  by (simp add: staged_defs Let_def List.union_def List.insert_def sample_env_def
       sample_staged_world_def sample_staged_trace_def
       cong: prod.case_cong_weak let_weak_cong)

lemma sample_backup_run:
  "backup_application_state sample_env empty_world = (Inr (), sample_backup_world)"
proof -
  have e: "sample_env\<lparr>upload_ok := (\<lambda>n. True)\<rparr> = sample_env"
    by (simp add: sample_env_def export_env_def quiet_env_def)
  have "compress_and_upload sample_env [''backup'', ''2024-12-06_backup''] sample_staged_world
          = sample_backup_world"
    by (simp add: run_simps sample_env_def sample_staged_world_def sample_backup_world_def
          sample_backup_trace_def sample_staged_trace_def sample_archive_def cong: prod.case_cong_weak let_weak_cong)
  then show ?thesis using sample_staged_run[of "\<lambda>n. True"] by (simp add: e)
qed

lemma staging_sample_env: "staging sample_env = [''backup'', ''2024-12-06_backup'']"
  by (simp add: staging_def sample_env_def export_env_def quiet_env_def BACKUP_DIRECTORY_def)

lemma sample_restore_run:
  "trace (snd (restore_application_state sample_env None (sample_backup_world\<lparr>trace := []\<rparr>))) =
     [Download ''cdf/latest/backup.zip'',
      Log INFO ''Downloaded from GCS bucket'',
      ExtractAll [''restore'', ''backup''] sample_archive,
      Log INFO ''Unzipped contents'',
      Log INFO ''downloaded and extracted successfully'',
      Api (CreateNamespace ''ns1'' (JObj [(''name'', JStr ''ns1'')])),
      Log INFO ''Namespace recreated successfully.'',
      Api (UpsertApp ''ns1'' ''a'' (JObj [(''name'', JStr ''a''), (''configuration'', JObj [])])),
      Log INFO ''App recreated successfully'']"
  by (simp add: run_simps sample_env_def sample_backup_world_def sample_backup_trace_def sample_staged_trace_def sample_archive_def
       cong: prod.case_cong_weak let_weak_cong)

text \<open>C3 on the sample service: the two files saved, in their order.\<close>

theorem namespaces_json_saved_first_witness:
  "filter is_save (trace empty_world) = []
   \<and> no_earlier (saves_namespaces_json sample_env) (saves_resource sample_env)
        (trace (snd (backup_application_state sample_env empty_world)))
   \<and> filter is_save (trace (snd (backup_application_state sample_env empty_world))) =
       [SaveToFile [''backup'', ''2024-12-06_backup'', ''namespaces.json'']
          (JArr [JObj [(''name'', JStr ''ns1'')]]),
        SaveToFile [''backup'', ''2024-12-06_backup'', ''ns1'', ''conn_c1.json'']
          (JObj [(''name'', JStr ''c1'')])]"
proof -
  have h: "filter is_save (trace empty_world) = []" by (simp add: empty_world_def)
  from namespaces_json_saved_first[OF h, of sample_env] h show ?thesis
    by (simp add: sample_backup_run sample_backup_world_def sample_backup_trace_def sample_staged_trace_def)
qed

text \<open>C3 as stated fails: in the backup of the sample service the export is unpacked
  into \<^verbatim>\<open>ns1/a.json\<close>, rewritten and renamed to \<^verbatim>\<open>ns1/app_a.json\<close> before
  \<^verbatim>\<open>namespaces.json\<close> is saved.\<close>

theorem namespace_dir_populated_first_counterexample:
  "\<not> no_earlier (saves_namespaces_json sample_env) (populates_namespace_dir sample_env)
        (trace (snd (backup_application_state sample_env empty_world)))"
  by (simp add: sample_backup_run sample_backup_world_def sample_backup_trace_def sample_staged_trace_def no_earlier_def
        saves_namespaces_json_def populates_namespace_dir_def staging_sample_env)

subsection \<open>Backup, then restore\<close>

text \<open>
  C1 at the namespace \<open>ns1\<close> of the sample service, which has no draft and the connection
  \<open>c1\<close>: the backup saves \<^verbatim>\<open>ns1/conn_c1.json\<close>, the file is in the archive of the latest
  slot, and the restore of that archive creates the namespace and upserts the application;
  it makes no other write call. The connection is not restored: the loop over the
  connection files is inside the loop over the draft files.
\<close>

theorem round_trip_loses_connection:
  "backup_application_state sample_env empty_world = (Inr (), sample_backup_world)
   \<and> SaveToFile [''backup'', ''2024-12-06_backup'', ''ns1'', ''conn_c1.json''] (JObj [(''name'', JStr ''c1'')])
        \<in> set (trace sample_backup_world)
   \<and> map_of (bucket sample_backup_world) ''cdf/latest/backup.zip'' = Some (Zip sample_archive)
   \<and> map_of sample_archive [''ns1'', ''conn_c1.json''] = Some (Doc (JObj [(''name'', JStr ''c1'')]))
   \<and> filter is_write_call
        (trace (snd (restore_application_state sample_env None (sample_backup_world\<lparr>trace := []\<rparr>))))
       = [Api (CreateNamespace ''ns1'' (JObj [(''name'', JStr ''ns1'')])),
          Api (UpsertApp ''ns1'' ''a'' (JObj [(''name'', JStr ''a''), (''configuration'', JObj [])]))]"
proof -
  have a: "SaveToFile [''backup'', ''2024-12-06_backup'', ''ns1'', ''conn_c1.json''] (JObj [(''name'', JStr ''c1'')])
        \<in> set (trace sample_backup_world)"
    by (simp add: sample_backup_world_def sample_backup_trace_def sample_staged_trace_def)
  have b: "map_of (bucket sample_backup_world) ''cdf/latest/backup.zip'' = Some (Zip sample_archive)"
    by (simp add: sample_backup_world_def)
  have c: "map_of sample_archive [''ns1'', ''conn_c1.json''] = Some (Doc (JObj [(''name'', JStr ''c1'')]))"
    by (simp add: sample_archive_def)
  show ?thesis using a b c by (simp add: sample_backup_run sample_restore_run)
qed

subsection \<open>The two uploads of a backup\<close>

lemma slots_differ: "archive_slot en \<noteq> latest_slot"
  by (simp add: archive_slot_def latest_slot_def GCS_ARCHIVE_FOLDER_def GCS_BACKUP_FOLDER_def)

lemma walk_files_log [simp]: "walk_files (log l m w) f = walk_files w f"
  by (simp add: walk_files_def log_def emit_def)

lemma trace_log: "trace (log l m w) = trace w @ [Log l m]"
  by (simp add: log_def emit_def)

lemma bucket_log [simp]: "bucket (log l m w) = bucket w"
  by (simp add: log_def emit_def)

lemma compress_folder_ok:
  assumes "compress_folder zf w = (Inr zp, w1)"
  shows "read_file w1 zp = Inr (Zip (walk_files w zf))"
    and "bucket w1 = bucket w"
    and "trace w1 = trace w @ [Compress zp (walk_files w zf), Log INFO ''Compressed folder saved'']"
  using assms
  by (auto simp: compress_folder_def Let_def write_file_def read_file_def log_def emit_def
        update_conv' split: if_splits)

lemma save_to_gcs_ok:
  assumes "read_file w p = Inr c"
  shows "bucket (save_to_gcs en n p f w) =
           (if upload_ok en (f @ ''/'' @ n) then AList.update (f @ ''/'' @ n) c (bucket w) else bucket w)"
    and "trace (save_to_gcs en n p f w) =
           trace w @ [Upload (f @ ''/'' @ n),
                      if upload_ok en (f @ ''/'' @ n) then Log INFO ''Zip file uploaded to GCS bucket''
                      else Log ERROR ''Failed to save to GCS'']"
    and "read_file (save_to_gcs en n p f w) q = read_file w q"
  using assms
  by (auto simp: save_to_gcs_def Let_def read_file_def log_def emit_def)

text \<open>
  C5 (as amended). When a backup run has compressed its staging directory, each of the
  two uploads that succeeds stores the archive of this run, in the latest slot and under
  the dated name in the history; an upload that fails is logged as an error by
  \<^verbatim>\<open>save_to_gcs\<close> and nothing else happens: the slot keeps what it held, the other upload
  is made all the same, and the run ends as it does when both succeed.
\<close>

theorem publish_outcome:
  assumes "compress_folder zf (log INFO ''Compressing and uploading the backup files to GCS'' w) = (Inr zp, w1)"
  shows "map_of (bucket (compress_and_upload en zf w)) latest_slot =
           (if upload_ok en latest_slot then Some (Zip (walk_files w zf))
            else map_of (bucket w) latest_slot)
       \<and> map_of (bucket (compress_and_upload en zf w)) (archive_slot en) =
           (if upload_ok en (archive_slot en) then Some (Zip (walk_files w zf))
            else map_of (bucket w) (archive_slot en))
       \<and> trace (compress_and_upload en zf w) =
           trace w @ [Log INFO ''Compressing and uploading the backup files to GCS'',
             Compress zp (walk_files w zf), Log INFO ''Compressed folder saved'',
             Upload (archive_slot en),
             if upload_ok en (archive_slot en) then Log INFO ''Zip file uploaded to GCS bucket''
             else Log ERROR ''Failed to save to GCS'',
             Upload latest_slot,
             if upload_ok en latest_slot then Log INFO ''Zip file uploaded to GCS bucket''
             else Log ERROR ''Failed to save to GCS'']"
proof -
  let ?w0 = "log INFO ''Compressing and uploading the backup files to GCS'' w"
  let ?a = "Zip (walk_files w zf)"
  note c = compress_folder_ok[OF assms]
  have r1: "read_file w1 zp = Inr ?a" using c(1) by simp
  let ?w2 = "save_to_gcs en (ZIPFILE_NAME en) zp GCS_ARCHIVE_FOLDER w1"
  have r2: "read_file ?w2 zp = Inr ?a" using save_to_gcs_ok(3)[OF r1] r1 by simp
  have cu: "compress_and_upload en zf w = save_to_gcs en ''backup.zip'' zp GCS_BACKUP_FOLDER ?w2"
    using assms by (simp add: compress_and_upload_def)
  have b2: "bucket ?w2 = (if upload_ok en (archive_slot en) then AList.update (archive_slot en) ?a (bucket w)
              else bucket w)"
    using save_to_gcs_ok(1)[OF r1, of en "ZIPFILE_NAME en" GCS_ARCHIVE_FOLDER] c(2)
    by (simp add: archive_slot_def trace_log)
  have t2: "trace ?w2 = trace w @ [Log INFO ''Compressing and uploading the backup files to GCS'',
             Compress zp (walk_files w zf), Log INFO ''Compressed folder saved'',
             Upload (archive_slot en),
             if upload_ok en (archive_slot en) then Log INFO ''Zip file uploaded to GCS bucket''
             else Log ERROR ''Failed to save to GCS'']"
    using save_to_gcs_ok(2)[OF r1, of en "ZIPFILE_NAME en" GCS_ARCHIVE_FOLDER] c(3)
    by (simp add: archive_slot_def trace_log)
  have b3: "bucket (compress_and_upload en zf w) =
              (if upload_ok en latest_slot then AList.update latest_slot ?a (bucket ?w2) else bucket ?w2)"
    using save_to_gcs_ok(1)[OF r2, of en "''backup.zip''" GCS_BACKUP_FOLDER]
    by (simp add: cu latest_slot_def)
  have t3: "trace (compress_and_upload en zf w) = trace ?w2 @ [Upload latest_slot,
             if upload_ok en latest_slot then Log INFO ''Zip file uploaded to GCS bucket''
             else Log ERROR ''Failed to save to GCS'']"
    using save_to_gcs_ok(2)[OF r2, of en "''backup.zip''" GCS_BACKUP_FOLDER]
    by (simp add: cu latest_slot_def)
  have m1: "map_of (bucket (compress_and_upload en zf w)) latest_slot =
           (if upload_ok en latest_slot then Some ?a else map_of (bucket w) latest_slot)"
    using slots_differ[of en] by (simp add: b3 b2 update_conv')
  have m2: "map_of (bucket (compress_and_upload en zf w)) (archive_slot en) =
           (if upload_ok en (archive_slot en) then Some ?a else map_of (bucket w) (archive_slot en))"
    using slots_differ[of en] by (simp add: b3 b2 update_conv')
  show ?thesis using m1 m2 t3 t2 by simp
qed

text \<open>C5 on the staged sample world, with the history location refusing the upload.\<close>

theorem publish_outcome_witness:
  "fst (compress_folder [''backup'', ''2024-12-06_backup'']
          (log INFO ''Compressing and uploading the backup files to GCS'' sample_staged_world))
     = Inr [''backup'', ''2024-12-06_backup.zip'']
   \<and> map_of (bucket (compress_and_upload history_down_env [''backup'', ''2024-12-06_backup'']
                        sample_staged_world)) latest_slot
       = Some (Zip (walk_files sample_staged_world [''backup'', ''2024-12-06_backup'']))
   \<and> map_of (bucket (compress_and_upload history_down_env [''backup'', ''2024-12-06_backup'']
                        sample_staged_world)) (archive_slot history_down_env)
       = None
   \<and> Log ERROR ''Failed to save to GCS''
       \<in> set (trace (compress_and_upload history_down_env [''backup'', ''2024-12-06_backup'']
                        sample_staged_world))"
proof -
  let ?zf = "[''backup'', ''2024-12-06_backup'']"
  let ?w0 = "log INFO ''Compressing and uploading the backup files to GCS'' sample_staged_world"
  have f: "fst (compress_folder ?zf ?w0) = Inr [''backup'', ''2024-12-06_backup.zip'']"
    by (simp add: compress_folder_def Let_def fs_defs sample_staged_world_def)
  then have h: "compress_folder ?zf ?w0
                  = (Inr [''backup'', ''2024-12-06_backup.zip''], snd (compress_folder ?zf ?w0))"
    by (metis prod.collapse)
  have u: "upload_ok history_down_env latest_slot"
      "\<not> upload_ok history_down_env (archive_slot history_down_env)"
    by (simp_all add: history_down_env_def latest_slot_def archive_slot_def GCS_BACKUP_FOLDER_def
          GCS_ARCHIVE_FOLDER_def)
  have b: "bucket sample_staged_world = []" by (simp add: sample_staged_world_def)
  from publish_outcome[OF h, of history_down_env] show ?thesis
    using f by (simp add: u b)
qed

text \<open>C5 as stated fails: in the backup of the sample service with the history location
  refusing the upload, the run reaches the uploads and ends normally, the latest slot
  holds the archive, and the history has gained no entry.\<close>

theorem backup_with_failed_upload_counterexample:
  "fst (backup_application_state history_down_env empty_world) = Inr ()
   \<and> map_of (bucket (snd (backup_application_state history_down_env empty_world)))
        ''cdf/latest/backup.zip'' = Some (Zip sample_archive)
   \<and> map_of (bucket (snd (backup_application_state history_down_env empty_world)))
        ''cdf/archive/2024-12-06_backup.zip'' = None"
proof -
  have "bucket (compress_and_upload history_down_env [''backup'', ''2024-12-06_backup'']
                  sample_staged_world) = [(''cdf/latest/backup.zip'', Zip sample_archive)]"
    by (simp add: run_simps history_down_env_def sample_env_def sample_staged_world_def
          sample_archive_def cong: prod.case_cong_weak let_weak_cong)
  then show ?thesis
    using sample_staged_run[of "\<lambda>n. n = ''cdf/latest/backup.zip''"]
    by (simp add: history_down_env_def)
qed

end
